theory Spec2Isabelle
  imports Main "HOL-Library.Word"
begin

section \<open>The in-memory captcha store (memstore/store.go)\<close>

text \<open>
  Times and durations are Go \<open>int64\<close> nanosecond counts.  \<open>time.Now().UnixNano()\<close> is an
  input of every operation that reads the clock: the operations below take the sampled
  value as the argument \<open>now\<close>.  Comparisons are the signed ones of \<open>int64\<close>, and
  \<open>time.Now().Add(d).UnixNano()\<close> is \<open>now + d\<close> in wrapping 64-bit arithmetic.
\<close>

type_synonym int64 = "64 word"

text \<open>The two error values of package captchas that the store returns.\<close>

datatype error = ErrIncorrectCaptcha | ErrExpiredCaptcha

text \<open>\<open>type item struct { expiration int64; answer string }\<close>\<close>

record item =
  expiration :: int64
  answer :: string

text \<open>
  \<open>type store struct\<close>.  The mutex carries no data; every operation below is one critical
  section, modelled as one function from state to state.
\<close>

record store =
  expiration :: int64
  gcInterval :: int64
  items :: "string \<rightharpoonup> item"

subsection \<open>Construction\<close>

type_synonym Option = "store \<Rightarrow> store"

definition Expiration :: "int64 \<Rightarrow> Option" where
  "Expiration d = (\<lambda>s. s\<lparr>store.expiration := d\<rparr>)"

definition GCInterval :: "int64 \<Rightarrow> Option" where
  "GCInterval interval = (\<lambda>s. s\<lparr>gcInterval := interval\<rparr>)"

definition Minute :: int64 where
  "Minute = 60000000000"

definition New :: "Option list \<Rightarrow> store" where
  "New opts = fold (\<lambda>f s. f s) opts
     \<lparr>store.expiration = 10 * Minute, gcInterval = Minute, items = Map.empty\<rparr>"

subsection \<open>Reading\<close>

text \<open>
  \<open>get\<close> returns \<open>(nil, err)\<close> or \<open>(item, nil)\<close>: a sum, the error on the left.
\<close>

definition get :: "store \<Rightarrow> string \<Rightarrow> int64 \<Rightarrow> error + item" where
  "get s cid now =
     (case items s cid of
        None \<Rightarrow> Inl ErrIncorrectCaptcha
      | Some it \<Rightarrow>
          if item.expiration it <s now then Inl ErrExpiredCaptcha else Inr it)"

text \<open>\<open>getAndDel\<close> returns the store it leaves behind together with the result.\<close>

definition getAndDel :: "store \<Rightarrow> string \<Rightarrow> int64 \<Rightarrow> store \<times> (error + item)" where
  "getAndDel s cid now =
     (case get s cid now of
        Inl err \<Rightarrow> (s, Inl err)
      | Inr it \<Rightarrow> (s\<lparr>items := (items s)(cid := None)\<rparr>, Inr it))"

text \<open>
  \<open>Get\<close> returns a string and an error; the error is \<open>None\<close> for Go's \<open>nil\<close>.
  The first component is the store after the call.
\<close>

definition Get :: "store \<Rightarrow> string \<Rightarrow> bool \<Rightarrow> int64 \<Rightarrow> store \<times> string \<times> error option" where
  "Get s cid clear now =
     (if clear then
        (case getAndDel s cid now of
           (s', Inl err) \<Rightarrow> (s', [], Some err)
         | (s', Inr it) \<Rightarrow> (s', answer it, None))
      else
        (case get s cid now of
           Inl err \<Rightarrow> (s, [], Some err)
         | Inr it \<Rightarrow> (s, answer it, None)))"

subsection \<open>Writing\<close>

definition Set :: "store \<Rightarrow> string \<Rightarrow> string \<Rightarrow> int64 \<Rightarrow> store \<times> error option" where
  "Set s cid ans now =
     (s\<lparr>items := (items s)(cid \<mapsto> \<lparr>item.expiration = now + store.expiration s, answer = ans\<rparr>)\<rparr>,
      None)"

subsection \<open>Garbage collection\<close>

text \<open>
  The body of the \<open>range\<close> loop of \<open>deleteExpired\<close> for one key.  Go's \<open>range\<close> over a map
  yields each key that is present when it is reached; a key deleted earlier is not
  produced, which is the \<open>None\<close> branch.
\<close>

definition deleteExpired_step :: "int64 \<Rightarrow> string \<Rightarrow> (string \<rightharpoonup> item) \<Rightarrow> (string \<rightharpoonup> item)" where
  "deleteExpired_step now cid m =
     (case m cid of
        None \<Rightarrow> m
      | Some it \<Rightarrow> if item.expiration it <s now then m(cid := None) else m)"

text \<open>
  \<open>deleteExpired\<close>: \<open>now\<close> is sampled once, before the loop.  The order in which \<open>range\<close>
  visits the keys is not specified by Go; \<open>order\<close> is that order.
\<close>

definition deleteExpired :: "store \<Rightarrow> int64 \<Rightarrow> string list \<Rightarrow> store" where
  "deleteExpired s now order = s\<lparr>items := fold (deleteExpired_step now) order (items s)\<rparr>"

subsection \<open>Sequences of calls\<close>

datatype call =
    CallGet string bool int64
  | CallSet string string int64
  | CallSweep int64 "string list"

fun exec :: "call \<Rightarrow> store \<Rightarrow> store" where
  "exec (CallGet cid clear now) s = fst (Get s cid clear now)"
| "exec (CallSet cid ans now) s = fst (Set s cid ans now)"
| "exec (CallSweep now order) s = deleteExpired s now order"

definition run :: "call list \<Rightarrow> store \<Rightarrow> store" where
  "run cs s = fold exec cs s"

fun sets_id :: "string \<Rightarrow> call \<Rightarrow> bool" where
  "sets_id cid (CallSet cid' ans now) = (cid' = cid)"
| "sets_id cid (CallGet cid' clear now) = False"
| "sets_id cid (CallSweep now order) = False"

definition no_Set_of :: "string \<Rightarrow> call list \<Rightarrow> bool" where
  "no_Set_of cid cs = list_all (\<lambda>c. \<not> sets_id cid c) cs"

section \<open>Auxiliary facts\<close>

text \<open>What one iteration of the sweep loop leaves at an arbitrary key \<open>x\<close>.\<close>

lemma deleteExpired_step_apply:
  "deleteExpired_step now k m x =
     (if x = k then
        (case m k of None \<Rightarrow> None
         | Some it \<Rightarrow> if item.expiration it <s now then None else Some it)
      else m x)"
  by (simp add: deleteExpired_step_def split: option.splits)

text \<open>What the whole loop leaves at \<open>x\<close>, for any visiting order.\<close>

lemma sweep_fold_apply:
  "fold (deleteExpired_step now) ks m x =
     (if x \<in> set ks then
        (case m x of None \<Rightarrow> None
         | Some it \<Rightarrow> if item.expiration it <s now then None else Some it)
      else m x)"
proof (induction ks arbitrary: m)
  case Nil
  show ?case by simp
next
  case (Cons k ks)
  have "fold (deleteExpired_step now) (k # ks) m x =
        fold (deleteExpired_step now) ks (deleteExpired_step now k m) x"
    by simp
  also have "\<dots> =
     (if x \<in> set ks then
        (case deleteExpired_step now k m x of None \<Rightarrow> None
         | Some it \<Rightarrow> if item.expiration it <s now then None else Some it)
      else deleteExpired_step now k m x)"
    by (rule Cons.IH)
  also have "\<dots> =
     (if x \<in> set (k # ks) then
        (case m x of None \<Rightarrow> None
         | Some it \<Rightarrow> if item.expiration it <s now then None else Some it)
      else m x)"
    unfolding deleteExpired_step_apply [of now k m x]
    by (cases "m x") auto
  finally show ?case .
qed

text \<open>No call other than a \<open>Set\<close> of the same id creates an entry for an absent id.\<close>

lemma exec_keeps_absent:
  assumes "items s cid = None" and "\<not> sets_id cid c"
  shows "items (exec c s) cid = None"
proof (cases c)
  case (CallGet k clear now)
  then show ?thesis using assms(1)
    by (auto simp: Get_def getAndDel_def get_def split: option.splits sum.splits if_splits)
next
  case (CallSet k ans now)
  then show ?thesis using assms by (simp add: Set_def)
next
  case (CallSweep now order)
  then show ?thesis using assms(1) by (simp add: deleteExpired_def sweep_fold_apply)
qed

lemma run_keeps_absent:
  "items s cid = None \<Longrightarrow> no_Set_of cid cs \<Longrightarrow> items (run cs s) cid = None"
  unfolding run_def no_Set_of_def
proof (induction cs arbitrary: s)
  case Nil
  then show ?case by simp
next
  case (Cons c cs)
  then show ?case by (simp add: exec_keeps_absent)
qed

section \<open>Properties of the store\<close>

text \<open>
  C1 (round trip).  \<open>Set(id, v)\<close> at time \<open>t1\<close> followed by \<open>Get(id, false)\<close> at time \<open>t2\<close>
  returns \<open>(v, nil)\<close> whenever the entry has not expired at \<open>t2\<close>, that is, unless
  \<open>t2 > t1 + expiration\<close> (the entry's expiration, see C5).
\<close>

theorem Set_then_Get_roundtrip:
  assumes "\<not> (t1 + store.expiration s <s t2)"
  shows "snd (Get (fst (Set s cid v t1)) cid False t2) = (v, None)"
  using assms by (simp add: Set_def Get_def get_def)

theorem Set_then_Get_roundtrip_witness:
  "\<not> (1000 + store.expiration (New []) <s (1000 :: int64)) \<and>
   snd (Get (fst (Set (New []) ''c1'' ''x7k'' 1000)) ''c1'' False 1000) = (''x7k'', None)"
proof -
  have live: "\<not> (1000 + store.expiration (New []) <s (1000 :: int64))"
    by (simp add: New_def Minute_def word_sless_alt)
  show ?thesis
    using live Set_then_Get_roundtrip [OF live, of "''c1''" "''x7k''"] by simp
qed

text \<open>
  C2 (consume once).  If \<open>id\<close> holds a live entry with value \<open>v\<close>, then \<open>Get(id, true)\<close>
  returns \<open>(v, nil)\<close> and the same call removes exactly that entry; after any further calls
  among which there is no \<open>Set\<close> of \<open>id\<close> (reads with either flag, sweeps, writes to other
  ids), \<open>Get(id, _)\<close> returns \<open>ErrIncorrectCaptcha\<close>, the store's not-found error.
\<close>

theorem Get_consume_once:
  assumes "items s cid = Some it"
    and "\<not> (item.expiration it <s now)"
    and "no_Set_of cid cs"
  shows "snd (Get s cid True now) = (answer it, None)
       \<and> items (fst (Get s cid True now)) = (items s)(cid := None)
       \<and> snd (Get (run cs (fst (Get s cid True now))) cid clear now') =
           ([], Some ErrIncorrectCaptcha)"
proof -
  let ?s' = "fst (Get s cid True now)"
  have ret: "snd (Get s cid True now) = (answer it, None)"
    using assms(1,2) by (simp add: Get_def getAndDel_def get_def)
  have del: "items ?s' = (items s)(cid := None)"
    using assms(1,2) by (simp add: Get_def getAndDel_def get_def)
  have "items ?s' cid = None"
    by (simp add: del)
  then have "items (run cs ?s') cid = None"
    using assms(3) by (rule run_keeps_absent)
  then have "snd (Get (run cs ?s') cid clear now') = ([], Some ErrIncorrectCaptcha)"
    by (simp add: Get_def getAndDel_def get_def)
  with ret del show ?thesis by simp
qed

theorem Get_consume_once_witness:
  "items (fst (Set (New []) ''c1'' ''x7k'' 1000)) ''c1'' =
     Some \<lparr>item.expiration = 600000001000, answer = ''x7k''\<rparr>
   \<and> \<not> ((600000001000 :: int64) <s 5000)
   \<and> no_Set_of ''c1''
        [CallGet ''c1'' False 6000, CallSweep 7000 [''c1''], CallSet ''c2'' ''q'' 8000]
   \<and> snd (Get (fst (Set (New []) ''c1'' ''x7k'' 1000)) ''c1'' True 5000) = (''x7k'', None)
   \<and> snd (Get (run [CallGet ''c1'' False 6000, CallSweep 7000 [''c1''],
                      CallSet ''c2'' ''q'' 8000]
                     (fst (Get (fst (Set (New []) ''c1'' ''x7k'' 1000)) ''c1'' True 5000)))
               ''c1'' False 9000) = ([], Some ErrIncorrectCaptcha)"
proof -
  let ?s = "fst (Set (New []) ''c1'' ''x7k'' 1000)"
  let ?it = "\<lparr>item.expiration = 600000001000, answer = ''x7k''\<rparr>"
  let ?cs = "[CallGet ''c1'' False 6000, CallSweep 7000 [''c1''], CallSet ''c2'' ''q'' 8000]"
  have h1: "items ?s ''c1'' = Some ?it"
    by (simp add: New_def Set_def Minute_def)
  have h2: "\<not> (item.expiration ?it <s 5000)"
    by (simp add: word_sless_alt)
  have h3: "no_Set_of ''c1'' ?cs"
    by (simp add: no_Set_of_def)
  from Get_consume_once [OF h1 h2 h3, of False 9000] h1 h2 h3
  show ?thesis by simp
qed

text \<open>
  C3 (expired entries).  If \<open>id\<close> has an entry whose expiration has passed
  (\<open>now > expiration\<close>), \<open>Get(id, consume)\<close> returns the empty string with
  \<open>ErrExpiredCaptcha\<close> for either flag, and the store it leaves is the store it found:
  the consuming read deletes nothing on its error path.
\<close>

theorem Get_expired:
  assumes "items s cid = Some it" and "item.expiration it <s now"
  shows "Get s cid clear now = (s, [], Some ErrExpiredCaptcha)"
  using assms by (simp add: Get_def getAndDel_def get_def)

theorem Get_expired_witness:
  "items (fst (Set (New []) ''c1'' ''x7k'' 1000)) ''c1'' =
     Some \<lparr>item.expiration = 600000001000, answer = ''x7k''\<rparr>
   \<and> (600000001000 :: int64) <s 600000001001
   \<and> Get (fst (Set (New []) ''c1'' ''x7k'' 1000)) ''c1'' True 600000001001 =
       (fst (Set (New []) ''c1'' ''x7k'' 1000), [], Some ErrExpiredCaptcha)"
proof -
  let ?s = "fst (Set (New []) ''c1'' ''x7k'' 1000)"
  let ?it = "\<lparr>item.expiration = 600000001000, answer = ''x7k''\<rparr>"
  have h1: "items ?s ''c1'' = Some ?it"
    by (simp add: New_def Set_def Minute_def)
  have h2: "item.expiration ?it <s 600000001001"
    by (simp add: word_sless_alt)
  from Get_expired [OF h1 h2, of True] h1 h2
  show ?thesis by simp
qed

text \<open>
  C4 (one sweep pass).  \<open>deleteExpired\<close> uses one clock reading \<open>now\<close> for the whole pass.
  Whatever the order in which the loop visits the keys of the map, the pass leaves the
  store with exactly the entries that have not expired relative to \<open>now\<close>: an entry with
  \<open>now > expiration\<close> is gone, an entry with \<open>now \<le> expiration\<close> is as it was, no entry is
  added and the configuration is untouched.  The pass has no error result.
\<close>

theorem deleteExpired_exact:
  assumes "set order = dom (items s)"
  shows "deleteExpired s now order =
           s\<lparr>items := (\<lambda>k. case items s k of
                               None \<Rightarrow> None
                             | Some it \<Rightarrow> if item.expiration it <s now then None else Some it)\<rparr>"
proof -
  have "fold (deleteExpired_step now) order (items s) k =
          (case items s k of
             None \<Rightarrow> None
           | Some it \<Rightarrow> if item.expiration it <s now then None else Some it)" for k
    using assms by (auto simp: sweep_fold_apply split: option.splits)
  then have "fold (deleteExpired_step now) order (items s) =
          (\<lambda>k. case items s k of
             None \<Rightarrow> None
           | Some it \<Rightarrow> if item.expiration it <s now then None else Some it)"
    by (rule ext)
  then show ?thesis by (simp add: deleteExpired_def)
qed

theorem deleteExpired_exact_witness:
  "set [''c2'', ''c1''] =
     dom (items (fst (Set (fst (Set (New []) ''c1'' ''x7k'' 1000)) ''c2'' ''q'' 5000)))
   \<and> items (deleteExpired (fst (Set (fst (Set (New []) ''c1'' ''x7k'' 1000)) ''c2'' ''q'' 5000))
              600000002000 [''c2'', ''c1'']) ''c1'' = None
   \<and> items (deleteExpired (fst (Set (fst (Set (New []) ''c1'' ''x7k'' 1000)) ''c2'' ''q'' 5000))
              600000002000 [''c2'', ''c1'']) ''c2'' =
       Some \<lparr>item.expiration = 600000005000, answer = ''q''\<rparr>"
proof -
  let ?s = "fst (Set (fst (Set (New []) ''c1'' ''x7k'' 1000)) ''c2'' ''q'' 5000)"
  have keys: "set [''c2'', ''c1''] = dom (items ?s)"
    by (simp add: New_def Set_def)
  have swept: "deleteExpired ?s 600000002000 [''c2'', ''c1''] =
      ?s\<lparr>items := (\<lambda>k. case items ?s k of
                           None \<Rightarrow> None
                         | Some it \<Rightarrow>
                             if item.expiration it <s 600000002000 then None else Some it)\<rparr>"
    using deleteExpired_exact [OF keys, of 600000002000] .
  have gone: "items (deleteExpired ?s 600000002000 [''c2'', ''c1'']) ''c1'' = None"
    unfolding swept by (simp add: New_def Set_def Minute_def word_sless_alt)
  have kept: "items (deleteExpired ?s 600000002000 [''c2'', ''c1'']) ''c2'' =
      Some \<lparr>item.expiration = 600000005000, answer = ''q''\<rparr>"
    unfolding swept by (simp add: New_def Set_def Minute_def word_sless_alt)
  from keys gone kept show ?thesis by blast
qed

text \<open>
  C5 (Set).  \<open>Set(id, value)\<close> returns \<open>nil\<close> from every store.  Afterwards \<open>id\<close> maps to the
  one entry with that value and \<open>expiration = now + s.expiration\<close> (in \<open>int64\<close> arithmetic),
  every other key and the configuration are as before, and neither the result nor the
  store depends on what \<open>id\<close> was mapped to before the call.
\<close>

theorem Set_effect:
  "snd (Set s cid v now) = None
   \<and> fst (Set s cid v now) =
       s\<lparr>items := (items s)(cid \<mapsto> \<lparr>item.expiration = now + store.expiration s, answer = v\<rparr>)\<rparr>
   \<and> Set (s\<lparr>items := (items s)(cid := prior)\<rparr>) cid v now = Set s cid v now"
  by (simp add: Set_def)

text \<open>
  C6 (overwrite), as the specification states it: after \<open>Set(id, "a")\<close> and \<open>Set(id, "b")\<close>,
  \<open>Get(id, false)\<close> returns \<open>("b", nil)\<close>.  The read checks the entry's expiration: on a store
  with the default ten minutes, a read later than ten minutes after the second \<open>Set\<close>
  returns \<open>ErrExpiredCaptcha\<close> and no value.
\<close>

theorem overwrite_Get_counterexample:
  "snd (Get (fst (Set (fst (Set (New []) ''c1'' ''a'' 1000)) ''c1'' ''b'' 2000))
            ''c1'' False 600000002001) = ([], Some ErrExpiredCaptcha)
   \<and> snd (Get (fst (Set (fst (Set (New []) ''c1'' ''a'' 1000)) ''c1'' ''b'' 2000))
            ''c1'' False 600000002001) \<noteq> (''b'', None)"
  by (simp add: New_def Set_def Get_def get_def Minute_def word_sless_alt)

text \<open>
  C6, amended.  After \<open>Set(id, a)\<close> at \<open>t1\<close> and \<open>Set(id, b)\<close> at \<open>t2\<close>, a \<open>Get(id, false)\<close> at
  a time \<open>t3\<close> at which the second entry has not expired (\<open>t3 \<le> t2 + expiration\<close>) returns
  \<open>(b, nil)\<close>.  The old value is unreachable: the two writes leave the very store that
  \<open>Set(id, b)\<close> alone leaves, so no later call can tell that \<open>a\<close> was ever stored.
\<close>

theorem overwrite_live:
  assumes "\<not> (t2 + store.expiration s <s t3)"
  shows "snd (Get (fst (Set (fst (Set s cid a t1)) cid b t2)) cid False t3) = (b, None)
       \<and> Set (fst (Set s cid a t1)) cid b t2 = Set s cid b t2"
  using assms by (simp add: Set_def Get_def get_def)

theorem overwrite_live_witness:
  "\<not> (2000 + store.expiration (New []) <s (600000002000 :: int64))
   \<and> snd (Get (fst (Set (fst (Set (New []) ''c1'' ''a'' 1000)) ''c1'' ''b'' 2000))
              ''c1'' False 600000002000) = (''b'', None)
   \<and> Set (fst (Set (New []) ''c1'' ''a'' 1000)) ''c1'' ''b'' 2000 =
       Set (New []) ''c1'' ''b'' 2000"
proof -
  have live: "\<not> (2000 + store.expiration (New []) <s (600000002000 :: int64))"
    by (simp add: New_def Minute_def word_sless_alt)
  from overwrite_live [OF live, of "''c1''" "''a''" 1000 "''b''"] live
  show ?thesis by blast
qed

text \<open>
  C7 (unknown key).  If the map has no entry for \<open>id\<close>, \<open>Get(id, consume)\<close> returns the empty
  string with \<open>ErrIncorrectCaptcha\<close>, the store's not-found error, for either flag, and
  leaves the store as it was.
\<close>

theorem Get_missing:
  assumes "items s cid = None"
  shows "Get s cid clear now = (s, [], Some ErrIncorrectCaptcha)"
  using assms by (simp add: Get_def getAndDel_def get_def)

theorem Get_missing_witness:
  "items (New []) ''missing'' = None
   \<and> Get (New []) ''missing'' True 1000 = (New [], [], Some ErrIncorrectCaptcha)
   \<and> Get (New []) ''missing'' False 1000 = (New [], [], Some ErrIncorrectCaptcha)"
proof -
  have absent: "items (New []) ''missing'' = None"
    by (simp add: New_def)
  from Get_missing [OF absent, of True 1000] Get_missing [OF absent, of False 1000] absent
  show ?thesis by blast
qed

text \<open>
  C8 (non-consuming reads leave the store alone).  \<open>Get(id, false)\<close> returns the store it
  was given, whether it finds the entry, finds none or finds it expired.  In particular two
  such reads in a row of an entry that is live at both times return \<open>(v, nil)\<close> both times.
\<close>

theorem Get_nonconsuming_frame:
  "fst (Get s cid False now) = s \<and>
   (items s cid = Some it \<and> \<not> (item.expiration it <s t1) \<and> \<not> (item.expiration it <s t2) \<longrightarrow>
      snd (Get s cid False t1) = (answer it, None) \<and>
      snd (Get (fst (Get s cid False t1)) cid False t2) = (answer it, None))"
  by (simp add: Get_def get_def split: option.splits)

theorem Get_nonconsuming_frame_witness:
  "fst (Get (fst (Set (New []) ''c1'' ''x7k'' 1000)) ''c1'' False 600000001001) =
     fst (Set (New []) ''c1'' ''x7k'' 1000)
   \<and> items (fst (Set (New []) ''c1'' ''x7k'' 1000)) ''c1'' =
       Some \<lparr>item.expiration = 600000001000, answer = ''x7k''\<rparr>
   \<and> \<not> ((600000001000 :: int64) <s 2000)
   \<and> \<not> ((600000001000 :: int64) <s 3000)
   \<and> snd (Get (fst (Set (New []) ''c1'' ''x7k'' 1000)) ''c1'' False 2000) = (''x7k'', None)
   \<and> snd (Get (fst (Get (fst (Set (New []) ''c1'' ''x7k'' 1000)) ''c1'' False 2000))
              ''c1'' False 3000) = (''x7k'', None)"
proof -
  let ?s = "fst (Set (New []) ''c1'' ''x7k'' 1000)"
  let ?it = "\<lparr>item.expiration = 600000001000, answer = ''x7k''\<rparr>"
  have h1: "items ?s ''c1'' = Some ?it"
    by (simp add: New_def Set_def Minute_def)
  have h2: "\<not> (item.expiration ?it <s 2000)"
    by (simp add: word_sless_alt)
  have h3: "\<not> (item.expiration ?it <s 3000)"
    by (simp add: word_sless_alt)
  from Get_nonconsuming_frame [of ?s "''c1''" 600000001001 ?it 2000 3000] h1 h2 h3
  show ?thesis by simp
qed

text \<open>
  C9 (the comparison is strict).  An entry read at the very instant \<open>now = expiration\<close> is
  returned as valid by \<open>Get\<close> with either flag (the consuming read removes it), and a sweep
  pass whose clock reading equals the entry's expiration keeps the entry, whatever keys the
  pass visits.
\<close>

theorem expiry_is_strict:
  assumes "items s cid = Some it" and "item.expiration it = now"
  shows "Get s cid False now = (s, answer it, None)
       \<and> Get s cid True now = (s\<lparr>items := (items s)(cid := None)\<rparr>, answer it, None)
       \<and> items (deleteExpired s now order) cid = Some it"
  using assms
  by (simp add: Get_def getAndDel_def get_def deleteExpired_def sweep_fold_apply)

theorem expiry_is_strict_witness:
  "items (fst (Set (New []) ''c1'' ''x7k'' 1000)) ''c1'' =
     Some \<lparr>item.expiration = 600000001000, answer = ''x7k''\<rparr>
   \<and> Get (fst (Set (New []) ''c1'' ''x7k'' 1000)) ''c1'' False 600000001000 =
       (fst (Set (New []) ''c1'' ''x7k'' 1000), ''x7k'', None)
   \<and> items (deleteExpired (fst (Set (New []) ''c1'' ''x7k'' 1000)) 600000001000 [''c1''])
        ''c1'' = Some \<lparr>item.expiration = 600000001000, answer = ''x7k''\<rparr>"
proof -
  let ?s = "fst (Set (New []) ''c1'' ''x7k'' 1000)"
  let ?it = "\<lparr>item.expiration = 600000001000, answer = ''x7k''\<rparr>"
  have h1: "items ?s ''c1'' = Some ?it"
    by (simp add: New_def Set_def Minute_def)
  have h2: "item.expiration ?it = 600000001000"
    by simp
  from expiry_is_strict [OF h1 h2, of "[''c1'']"] h1
  show ?thesis by simp
qed

text \<open>
  C10 (no value with an error).  Whenever \<open>Get\<close> returns a non-nil error, the string it
  returns is empty, for either flag.
\<close>

theorem Get_error_empty_answer:
  assumes "snd (snd (Get s cid clear now)) \<noteq> None"
  shows "fst (snd (Get s cid clear now)) = []"
  using assms
  by (auto simp: Get_def getAndDel_def get_def split: option.splits if_splits)

theorem Get_error_empty_answer_witness:
  "snd (snd (Get (fst (Set (New []) ''c1'' ''x7k'' 1000)) ''c1'' True 600000001001)) \<noteq> None
   \<and> fst (snd (Get (fst (Set (New []) ''c1'' ''x7k'' 1000)) ''c1'' True 600000001001)) = []"
proof -
  have err: "snd (snd (Get (fst (Set (New []) ''c1'' ''x7k'' 1000)) ''c1'' True 600000001001))
      \<noteq> None"
    by (simp add: New_def Set_def Get_def getAndDel_def get_def Minute_def word_sless_alt)
  from Get_error_empty_answer [OF err] err
  show ?thesis by blast
qed

end
